theory Spec2Isabelle
  imports Complex_Main "HOL-Library.Product_Lexorder" "HOL-Library.AList"
begin

section \<open>Strings and the Python library\<close>

text \<open>
  A Python \<^verbatim>\<open>str\<close> is a sequence of Unicode code points, and \<^verbatim>\<open>len\<close> counts code
  points. A string is therefore a list of natural numbers; \<open>u\<close> turns an ASCII literal
  into such a list.
\<close>

type_synonym codepoint = nat
type_synonym str = "codepoint list"

definition u :: "string \<Rightarrow> str" where
  "u s = map of_char s"

text \<open>
  \<^verbatim>\<open>rom-search.py\<close> calls functions of the Python library whose tables and
  algorithms are not part of the repository: the Unicode database behind
  \<^verbatim>\<open>str.lower\<close>, \<^verbatim>\<open>str.split\<close>, \<^verbatim>\<open>str.strip\<close> and \<^verbatim>\<open>unicodedata\<close>, the fuzzy
  scorers of \<^verbatim>\<open>rapidfuzz\<close> and \<^verbatim>\<open>difflib\<close>, IEEE double arithmetic, \<^verbatim>\<open>hashlib.md5\<close>,
  \<^verbatim>\<open>str()\<close> of numbers and \<^verbatim>\<open>pathlib\<close>. They are the fields of the record \<open>pylib\<close>,
  which every function of the engine takes as its first argument. A theorem
  with a free \<open>L\<close> holds for every such library. A Python \<^verbatim>\<open>float\<close> is a \<open>real\<close> (the
  doubles are a subset of the reals; NaN and the infinities are left out), with
  the rounding operations \<open>float_add\<close> and \<open>float_mul\<close> as fields.
\<close>

record pylib =
  str_isspace :: "codepoint \<Rightarrow> bool"
  str_lower :: "str \<Rightarrow> str"
  normalize_NFD :: "str \<Rightarrow> str"
  combining :: "codepoint \<Rightarrow> nat"
  RAPIDFUZZ_AVAILABLE :: bool
  partial_ratio :: "str \<Rightarrow> str \<Rightarrow> real"
  SequenceMatcher_ratio :: "str \<Rightarrow> str \<Rightarrow> real"
  float_add :: "real \<Rightarrow> real \<Rightarrow> real"
  float_mul :: "real \<Rightarrow> real \<Rightarrow> real"
  md5_hexdigest :: "str \<Rightarrow> str"
  str_float :: "real \<Rightarrow> str"
  str_int :: "int \<Rightarrow> str"
  path_join :: "str \<Rightarrow> str \<Rightarrow> str"
  path_resolve :: "str \<Rightarrow> str"

text \<open>\<^verbatim>\<open>s.strip()\<close>: leading and trailing whitespace removed.\<close>

definition strip :: "pylib \<Rightarrow> str \<Rightarrow> str" where
  "strip L s = rev (dropWhile (str_isspace L) (rev (dropWhile (str_isspace L) s)))"

text \<open>
  \<^verbatim>\<open>s.split()\<close>: the maximal runs of non-whitespace characters, in order. The
  second argument of \<open>split_words\<close> is the word read so far.
\<close>

fun split_words :: "(codepoint \<Rightarrow> bool) \<Rightarrow> str \<Rightarrow> str \<Rightarrow> str list" where
  "split_words sp w [] = (if w = [] then [] else [w])"
| "split_words sp w (c # cs) =
     (if sp c then (if w = [] then split_words sp [] cs else w # split_words sp [] cs)
      else split_words sp (w @ [c]) cs)"

definition str_split :: "pylib \<Rightarrow> str \<Rightarrow> str list" where
  "str_split L s = split_words (str_isspace L) [] s"

text \<open>
  \<^verbatim>\<open>s.split(sep)\<close> for a separator of one character: the pieces between the
  separators, empty pieces included, so the result is never empty and its
  element \<^verbatim>\<open>[-1]\<close> is \<open>last\<close>.
\<close>

fun split_sep :: "codepoint \<Rightarrow> str \<Rightarrow> str \<Rightarrow> str list" where
  "split_sep sep w [] = [w]"
| "split_sep sep w (c # cs) =
     (if c = sep then w # split_sep sep [] cs else split_sep sep (w @ [c]) cs)"

text \<open>\<^verbatim>\<open>word in s\<close> for strings: \<open>word\<close> occurs in \<open>s\<close> as a contiguous run.\<close>

fun startswith :: "str \<Rightarrow> str \<Rightarrow> bool" where
  "startswith s [] = True"
| "startswith [] (c # w) = False"
| "startswith (d # s) (c # w) = (c = d \<and> startswith s w)"

fun str_in :: "str \<Rightarrow> str \<Rightarrow> bool" where
  "str_in w [] = (w = [])"
| "str_in w (c # s) = (startswith (c # s) w \<or> str_in w s)"

section \<open>The matched file and the extension filter\<close>

text \<open>
  The dataclass \<^verbatim>\<open>RomMatch\<close>. Its field \<^verbatim>\<open>size\<close> is \<open>size_bytes\<close> here (\<open>size\<close> is a
  constant of HOL).
\<close>

record RomMatch =
  filename :: str
  full_path :: str
  source_type :: str
  score :: real
  size_bytes :: int
  modified_time :: real

definition ROM_EXTENSIONS :: "str list" where
  "ROM_EXTENSIONS = map u
     [''zip'', ''7z'', ''rar'', ''sfc'', ''smd'', ''gen'', ''nes'', ''gb'', ''gbc'', ''gba'',
      ''n64'', ''z64'', ''v64'', ''iso'', ''cue'', ''bin'', ''img'', ''rom'', ''sms'', ''gg'',
      ''pce'', ''ws'', ''wsc'', ''ngp'', ''ngc'', ''lynx'', ''jag'', ''32x'', ''sat'', ''cdi'',
      ''chd'', ''nds'', ''gba'', ''fds'', ''nsf'', ''spc'', ''psf'', ''minipsf'', ''psf2'',
      ''ssf'', ''dsf'', ''gsf'', ''usf'', ''rsn'', ''sap'', ''sid'', ''gym'', ''vgm'', ''vgz'']"

definition is_rom_file :: "pylib \<Rightarrow> str \<Rightarrow> bool" where
  "is_rom_file L fname =
     (let ext = last (split_sep (of_char CHR ''.'') [] (str_lower L fname))
      in ext \<in> set ROM_EXTENSIONS)"

section \<open>Normalizer, fuzzy score and lexical pre-filter\<close>

definition normalize_text :: "pylib \<Rightarrow> str \<Rightarrow> str" where
  "normalize_text L text =
     (if text = [] then []
      else let normalized = normalize_NFD L text;
               no_diacritics = filter (\<lambda>c. combining L c = 0) normalized
           in str_lower L no_diacritics)"

definition fuzzy_match_score :: "pylib \<Rightarrow> str \<Rightarrow> str \<Rightarrow> real" where
  "fuzzy_match_score L query fname =
     (if RAPIDFUZZ_AVAILABLE L then partial_ratio L (str_lower L query) (str_lower L fname)
      else float_mul L (SequenceMatcher_ratio L (str_lower L query) (str_lower L fname)) 100)"

text \<open>
  \<^verbatim>\<open>max(1, int(len(query_words) * 0.6))\<close>. The product is an IEEE double and
  \<^verbatim>\<open>int\<close> truncates it. The double \<^verbatim>\<open>0.6\<close> is \<open>0.6 - 0.2 * 2^-53\<close>, so for a multiple
  \<open>n = 5 * k\<close> the exact product misses \<open>3 * k\<close> by \<open>k * 2^-53\<close>, less than half the
  spacing of the doubles below \<open>3 * k\<close>, and rounds to \<open>3 * k\<close>; for the other \<open>n\<close> the
  product is at least \<open>0.2\<close> away from an integer. For every list length a
  machine can hold the code therefore computes \<open>(3 * n) div 5\<close> (floor, not
  ceiling, of \<open>0.6 * n\<close>).
\<close>

definition required_matches :: "nat \<Rightarrow> nat" where
  "required_matches n = max 1 ((3 * n) div 5)"

definition contains_all_words :: "pylib \<Rightarrow> str \<Rightarrow> str \<Rightarrow> bool" where
  "contains_all_words L query fname =
     (if length (strip L query) < 3 then True
      else let query_words = filter (\<lambda>w. 2 \<le> length w) (str_split L (str_lower L query));
               filename_lower = str_lower L fname;
               matches = length (filter (\<lambda>word. str_in word filename_lower) query_words);
               required = required_matches (length query_words)
           in if required \<le> matches then True
              else let norm_query = normalize_text L query;
                       norm_filename = normalize_text L fname;
                       norm_words = filter (\<lambda>w. 2 \<le> length w) (str_split L norm_query);
                       norm_matches =
                         length (filter (\<lambda>word. str_in word norm_filename) norm_words)
                   in required_matches (length norm_words) \<le> norm_matches)"

section \<open>The filesystem and the engine's state\<close>

text \<open>
  The part of the filesystem the engine reads: for the path of a directory that
  exists, the result of its \<^verbatim>\<open>stat()\<close> and the paths \<^verbatim>\<open>rglob("*")\<close> yields, in
  traversal order (the same order for every traversal of an unchanged tree); for
  the path of a file that exists, what opening and decoding it gives. A
  \<^verbatim>\<open>stat()\<close> that raises \<^verbatim>\<open>OSError\<close> is \<open>None\<close>. \<open>clock\<close> is \<^verbatim>\<open>time.time()\<close>.
  The cache directory is taken to lie outside the two scanned trees, so
  writing a cache file changes \<open>files\<close> only.
\<close>

record stat_result =
  st_mtime :: real
  st_size :: int

record entry =
  e_name :: str
  e_path :: str
  e_is_file :: bool
  e_stat :: "stat_result option"

record directory =
  d_stat :: "stat_result option"
  d_rglob :: "entry list"

text \<open>
  A decoded JSON document as \<^verbatim>\<open>json.load\<close> returns it: \<open>JObj\<close> is a Python dict
  in insertion order (keys distinct), \<open>JArr\<close> a list. The text form of the file
  is not modelled: \<^verbatim>\<open>json.dump\<close> followed by \<^verbatim>\<open>json.load\<close> gives back strings,
  integers and floats unchanged. A file can also fail to open (\<open>Unreadable\<close>), hold
  bytes that are not UTF-8 (\<open>NotUtf8\<close>), or hold text that is not JSON (\<open>NotJson\<close>).
\<close>

datatype json =
  JNull | JBool bool | JInt int | JFloat real | JStr str
  | JArr "json list" | JObj "(str \<times> json) list"

datatype file_content = Unreadable | NotUtf8 | NotJson | JsonText json

record filesystem =
  dirs :: "str \<rightharpoonup> directory"
  files :: "str \<rightharpoonup> file_content"
  write_fails :: "str \<Rightarrow> bool"
  clock :: real

text \<open>
  \<^verbatim>\<open>Dict[str, List[RomMatch]]\<close> and the engine's \<^verbatim>\<open>_file_index\<close> are dicts whose
  iteration order the search depends on: association lists, read with \<open>map_of\<close>
  and written with \<open>AList.update\<close> (in place for a key that is present, at the end
  for a new one, as a Python dict does). The lock and the log are left out: the
  model is sequential and logging changes no value.
\<close>

type_synonym collection_index = "(str \<times> RomMatch list) list"

record engine =
  base_dir :: str
  official_dir :: str
  translations_dir :: str
  max_workers :: int
  fuzzy_threshold :: real
  cache_dir :: str
  file_index :: "(str \<times> collection_index) list"
  cache_loaded :: bool

definition DEFAULT_MAX_WORKERS :: int where
  "DEFAULT_MAX_WORKERS = 8"

definition DEFAULT_FUZZY_THRESHOLD :: real where
  "DEFAULT_FUZZY_THRESHOLD = 40"

definition CACHE_VERSION :: str where
  "CACHE_VERSION = u ''1.0''"

definition DEFAULT_MAX_RESULTS :: int where
  "DEFAULT_MAX_RESULTS = 50"

definition DIRECTORY_SAMPLE_SIZE :: nat where
  "DIRECTORY_SAMPLE_SIZE = 100"

text \<open>
  \<^verbatim>\<open>__init__\<close>. An absent or empty \<^verbatim>\<open>cache_dir\<close> and an absent or zero \<^verbatim>\<open>max_workers\<close>
  take their defaults. Creating the cache directory is not modelled.
\<close>

definition init :: "pylib \<Rightarrow> str \<Rightarrow> str option \<Rightarrow> real \<Rightarrow> int option \<Rightarrow> engine" where
  "init L base cache threshold workers =
     (let b = path_resolve L base
      in \<lparr>base_dir = b,
          official_dir = path_join L b (u ''Official''),
          translations_dir = path_join L b (u ''Translations''),
          max_workers =
            (case workers of None \<Rightarrow> DEFAULT_MAX_WORKERS
             | Some w \<Rightarrow> if w = 0 then DEFAULT_MAX_WORKERS else w),
          fuzzy_threshold = threshold,
          cache_dir =
            (case cache of None \<Rightarrow> path_join L b (u ''.rom_cache'')
             | Some c \<Rightarrow> if c = [] then path_join L b (u ''.rom_cache'') else c),
          file_index = [],
          cache_loaded = False\<rparr>)"

definition get_cache_file_path :: "pylib \<Rightarrow> engine \<Rightarrow> str \<Rightarrow> str" where
  "get_cache_file_path L E system = path_join L (cache_dir E) (system @ u ''.json'')"

section \<open>DirectoryHasher\<close>

text \<open>
  The hasher's state is the text fed to it so far. The loop over the first
  \<open>DIRECTORY_SAMPLE_SIZE\<close> paths skips what is not a file; a \<^verbatim>\<open>stat()\<close> that raises
  ends the loop (the exception is swallowed after it) and the digest is of what
  was fed until then.
\<close>

fun hash_entries :: "pylib \<Rightarrow> entry list \<Rightarrow> str" where
  "hash_entries L [] = []"
| "hash_entries L (e # es) =
     (if \<not> e_is_file e then hash_entries L es
      else case e_stat e of
             None \<Rightarrow> []
           | Some st \<Rightarrow>
               str_float L (st_mtime st) @ str_int L (st_size st) @ hash_entries L es)"

definition calculate_dir_hash :: "pylib \<Rightarrow> filesystem \<Rightarrow> str \<Rightarrow> str" where
  "calculate_dir_hash L fs dir =
     (case dirs fs dir of
        None \<Rightarrow> []
      | Some d \<Rightarrow>
          md5_hexdigest L
            (case d_stat d of
               None \<Rightarrow> []
             | Some st \<Rightarrow>
                 str_float L (st_mtime st) @ str_int L (st_size st)
                 @ hash_entries L (take DIRECTORY_SAMPLE_SIZE (d_rglob d))))"

section \<open>FileScanner and index build\<close>

fun scan_entries :: "pylib \<Rightarrow> str \<Rightarrow> entry list \<Rightarrow> RomMatch list" where
  "scan_entries L tag [] = []"
| "scan_entries L tag (e # es) =
     (if \<not> e_is_file e then scan_entries L tag es
      else if \<not> is_rom_file L (e_name e) then scan_entries L tag es
      else case e_stat e of
             None \<Rightarrow> scan_entries L tag es
           | Some st \<Rightarrow>
               \<lparr>filename = e_name e, full_path = e_path e, source_type = tag,
                score = 100, size_bytes = st_size st, modified_time = st_mtime st\<rparr>
               # scan_entries L tag es)"

definition scan_directory :: "pylib \<Rightarrow> filesystem \<Rightarrow> str \<Rightarrow> str \<Rightarrow> RomMatch list" where
  "scan_directory L fs dir tag =
     (case dirs fs dir of None \<Rightarrow> [] | Some d \<Rightarrow> scan_entries L tag (d_rglob d))"

definition build_index :: "pylib \<Rightarrow> engine \<Rightarrow> filesystem \<Rightarrow> str \<Rightarrow> collection_index" where
  "build_index L E fs system =
     (let matches = [];
          official = path_join L (official_dir E) system;
          matches =
            (if dirs fs official \<noteq> None
             then AList.update (u ''official'') (scan_directory L fs official (u ''official'')) matches
             else matches);
          trans = path_join L (translations_dir E) system;
          matches =
            (if dirs fs trans \<noteq> None
             then AList.update (u ''translations'')
                    (scan_directory L fs trans (u ''translations'')) matches
             else matches)
      in matches)"

section \<open>IndexStore: the cache file\<close>

text \<open>
  The exceptions of the load path. \<^verbatim>\<open>_load_cache\<close> catches \<open>JSONDecodeError\<close>,
  \<open>KeyError\<close> and \<open>TypeError\<close>; the others leave it. \<open>Untyped\<close> is not a Python
  exception: it marks a cache record whose field holds a JSON value of another
  type than the one \<^verbatim>\<open>_save_cache\<close> writes. Python would go on with a \<^verbatim>\<open>RomMatch\<close>
  holding that value, which the record type \<open>RomMatch\<close> of this theory cannot
  hold; nothing is stated about such files.
\<close>

datatype pyexn =
  JSONDecodeError | KeyError | TypeError | AttributeError | UnicodeDecodeError | OSError
  | Untyped

definition bind :: "pyexn + 'a \<Rightarrow> ('a \<Rightarrow> pyexn + 'b) \<Rightarrow> pyexn + 'b" where
  "bind r f = (case r of Inl e \<Rightarrow> Inl e | Inr v \<Rightarrow> f v)"

text \<open>
  \<^verbatim>\<open>d.get(k)\<close>, \<^verbatim>\<open>d.items()\<close>, \<^verbatim>\<open>d[k]\<close> for a string \<open>k\<close>, and iteration, on a decoded
  JSON value: only a dict has \<^verbatim>\<open>get\<close> and \<^verbatim>\<open>items\<close>; subscripting a list or a string
  with a string, or anything else at all, is a \<open>TypeError\<close>; a dict iterates over
  its keys, a string over its characters, and numbers, booleans and \<^verbatim>\<open>None\<close> do
  not iterate.
\<close>

definition dict_get :: "json \<Rightarrow> str \<Rightarrow> pyexn + json option" where
  "dict_get d k = (case d of JObj kvs \<Rightarrow> Inr (map_of kvs k) | _ \<Rightarrow> Inl AttributeError)"

definition dict_items :: "json \<Rightarrow> pyexn + (str \<times> json) list" where
  "dict_items d = (case d of JObj kvs \<Rightarrow> Inr kvs | _ \<Rightarrow> Inl AttributeError)"

definition subscript :: "json \<Rightarrow> str \<Rightarrow> pyexn + json" where
  "subscript d k =
     (case d of
        JObj kvs \<Rightarrow> (case map_of kvs k of None \<Rightarrow> Inl KeyError | Some v \<Rightarrow> Inr v)
      | _ \<Rightarrow> Inl TypeError)"

definition iterate :: "json \<Rightarrow> pyexn + json list" where
  "iterate d =
     (case d of
        JArr xs \<Rightarrow> Inr xs
      | JObj kvs \<Rightarrow> Inr (map (\<lambda>kv. JStr (fst kv)) kvs)
      | JStr cs \<Rightarrow> Inr (map (\<lambda>c. JStr [c]) cs)
      | _ \<Rightarrow> Inl TypeError)"

definition as_str :: "json \<Rightarrow> pyexn + str" where
  "as_str j = (case j of JStr cs \<Rightarrow> Inr cs | _ \<Rightarrow> Inl Untyped)"

definition as_int :: "json \<Rightarrow> pyexn + int" where
  "as_int j = (case j of JInt i \<Rightarrow> Inr i | _ \<Rightarrow> Inl Untyped)"

definition as_float :: "json \<Rightarrow> pyexn + real" where
  "as_float j = (case j of JFloat r \<Rightarrow> Inr r | JInt i \<Rightarrow> Inr (of_int i) | _ \<Rightarrow> Inl Untyped)"

text \<open>
  \<^verbatim>\<open>RomMatch(filename=match['filename'], ..., modified_time=match['modified_time'])\<close>:
  the six subscripts in the order of the source, \<^verbatim>\<open>match['score']\<close> among them.
\<close>

definition load_match :: "json \<Rightarrow> pyexn + RomMatch" where
  "load_match m =
     bind (subscript m (u ''filename'')) (\<lambda>j1.
     bind (subscript m (u ''full_path'')) (\<lambda>j2.
     bind (subscript m (u ''source_type'')) (\<lambda>j3.
     bind (subscript m (u ''score'')) (\<lambda>j4.
     bind (subscript m (u ''size'')) (\<lambda>j5.
     bind (subscript m (u ''modified_time'')) (\<lambda>j6.
     bind (as_str j1) (\<lambda>v1.
     bind (as_str j2) (\<lambda>v2.
     bind (as_str j3) (\<lambda>v3.
     bind (as_float j4) (\<lambda>v4.
     bind (as_int j5) (\<lambda>v5.
     bind (as_float j6) (\<lambda>v6.
       Inr \<lparr>filename = v1, full_path = v2, source_type = v3,
            score = v4, size_bytes = v5, modified_time = v6\<rparr>))))))))))))"

fun load_matches :: "json list \<Rightarrow> pyexn + RomMatch list" where
  "load_matches [] = Inr []"
| "load_matches (m # ms) =
     (case load_match m of
        Inl e \<Rightarrow> Inl e
      | Inr r \<Rightarrow> (case load_matches ms of Inl e \<Rightarrow> Inl e | Inr rs \<Rightarrow> Inr (r # rs)))"

fun load_sources :: "(str \<times> json) list \<Rightarrow> collection_index \<Rightarrow> pyexn + collection_index" where
  "load_sources [] matches = Inr matches"
| "load_sources ((tag, records) # rest) matches =
     (case iterate records of
        Inl e \<Rightarrow> Inl e
      | Inr ms \<Rightarrow>
          (case load_matches ms of
             Inl e \<Rightarrow> Inl e
           | Inr rs \<Rightarrow> load_sources rest (AList.update tag rs matches)))"

text \<open>
  The body of the \<^verbatim>\<open>try\<close> of \<^verbatim>\<open>_load_cache\<close>. The second hash is looked up only when
  the first one matches (\<^verbatim>\<open>or\<close> is lazy). The index is stored only at the end.
\<close>

definition load_cache_try ::
  "pylib \<Rightarrow> engine \<Rightarrow> filesystem \<Rightarrow> str \<Rightarrow> file_content \<Rightarrow> pyexn + (bool \<times> engine)" where
  "load_cache_try L E fs system content =
     (case content of
        Unreadable \<Rightarrow> Inl OSError
      | NotUtf8 \<Rightarrow> Inl UnicodeDecodeError
      | NotJson \<Rightarrow> Inl JSONDecodeError
      | JsonText cache_data \<Rightarrow>
          bind (dict_get cache_data (u ''version'')) (\<lambda>version.
          if version \<noteq> Some (JStr CACHE_VERSION) then Inr (False, E)
          else
            let official_hash = calculate_dir_hash L fs (path_join L (official_dir E) system);
                trans_hash = calculate_dir_hash L fs (path_join L (translations_dir E) system)
            in
          bind (dict_get cache_data (u ''official_hash'')) (\<lambda>stored_official.
          if stored_official \<noteq> Some (JStr official_hash) then Inr (False, E)
          else
          bind (dict_get cache_data (u ''translations_hash'')) (\<lambda>stored_trans.
          if stored_trans \<noteq> Some (JStr trans_hash) then Inr (False, E)
          else
          bind (dict_get cache_data (u ''matches'')) (\<lambda>stored.
          bind (dict_items (case stored of None \<Rightarrow> JObj [] | Some j \<Rightarrow> j)) (\<lambda>items.
          bind (load_sources items []) (\<lambda>matches.
            Inr (True, E\<lparr>file_index := AList.update system matches (file_index E)\<rparr>))))))))"

definition load_cache :: "pylib \<Rightarrow> engine \<Rightarrow> filesystem \<Rightarrow> str \<Rightarrow> pyexn + (bool \<times> engine)" where
  "load_cache L E fs system =
     (let cache_path = get_cache_file_path L E system
      in case files fs cache_path of
           None \<Rightarrow> Inr (False, E)
         | Some content \<Rightarrow>
             (case load_cache_try L E fs system content of
                Inl e \<Rightarrow>
                  if e = JSONDecodeError \<or> e = KeyError \<or> e = TypeError then Inr (False, E)
                  else Inl e
              | Inr r \<Rightarrow> Inr r))"

text \<open>
  \<^verbatim>\<open>_save_cache\<close>. Each record is written with five keys: \<^verbatim>\<open>score\<close> is not among
  them. The file is written to a temporary path and moved over the cache path;
  the model keeps the net effect: either the cache path holds the new document,
  or (every exception is swallowed) it holds what it held.
\<close>

definition save_match :: "RomMatch \<Rightarrow> json" where
  "save_match m =
     JObj [(u ''filename'', JStr (filename m)),
           (u ''full_path'', JStr (full_path m)),
           (u ''source_type'', JStr (source_type m)),
           (u ''size'', JInt (size_bytes m)),
           (u ''modified_time'', JFloat (modified_time m))]"

definition save_cache :: "pylib \<Rightarrow> engine \<Rightarrow> filesystem \<Rightarrow> str \<Rightarrow> filesystem" where
  "save_cache L E fs system =
     (let cache_path = get_cache_file_path L E system;
          matches = (case map_of (file_index E) system of None \<Rightarrow> [] | Some m \<Rightarrow> m);
          cache_data =
            JObj [(u ''version'', JStr CACHE_VERSION),
                  (u ''timestamp'', JFloat (clock fs)),
                  (u ''official_hash'',
                     JStr (calculate_dir_hash L fs (path_join L (official_dir E) system))),
                  (u ''translations_hash'',
                     JStr (calculate_dir_hash L fs (path_join L (translations_dir E) system))),
                  (u ''matches'',
                     JObj (map (\<lambda>(tag, records). (tag, JArr (map save_match records))) matches))]
      in if write_fails fs cache_path then fs
         else fs\<lparr>files := (files fs)(cache_path \<mapsto> JsonText cache_data)\<rparr>)"

definition ensure_index ::
  "pylib \<Rightarrow> engine \<Rightarrow> filesystem \<Rightarrow> str \<Rightarrow> pyexn + (engine \<times> filesystem)" where
  "ensure_index L E fs system =
     (if map_of (file_index E) system \<noteq> None then Inr (E, fs)
      else case load_cache L E fs system of
             Inl e \<Rightarrow> Inl e
           | Inr (loaded, E1) \<Rightarrow>
               if loaded then Inr (E1, fs)
               else let matches = build_index L E1 fs system;
                        E2 = E1\<lparr>file_index := AList.update system matches (file_index E1)\<rparr>
                    in Inr (E2, save_cache L E2 fs system))"

section \<open>QueryEngine: search\<close>

text \<open>
  The inner loop of \<^verbatim>\<open>search\<close> over the records of one provenance tag, and the
  outer loop over the tags: the list \<^verbatim>\<open>results\<close> before it is sorted.
\<close>

fun match_files :: "pylib \<Rightarrow> real \<Rightarrow> str \<Rightarrow> RomMatch list \<Rightarrow> RomMatch list" where
  "match_files L threshold query [] = []"
| "match_files L threshold query (rom_match # rest) =
     (if \<not> contains_all_words L query (filename rom_match)
      then match_files L threshold query rest
      else let sc = fuzzy_match_score L query (filename rom_match)
           in if threshold \<le> sc
              then \<lparr>filename = filename rom_match,
                    full_path = full_path rom_match,
                    source_type = source_type rom_match,
                    score = sc,
                    size_bytes = size_bytes rom_match,
                    modified_time = modified_time rom_match\<rparr>
                   # match_files L threshold query rest
              else match_files L threshold query rest)"

fun collect_results :: "pylib \<Rightarrow> real \<Rightarrow> str \<Rightarrow> collection_index \<Rightarrow> RomMatch list" where
  "collect_results L threshold query [] = []"
| "collect_results L threshold query ((tag, records) # rest) =
     match_files L threshold query records @ collect_results L threshold query rest"

text \<open>
  \<^verbatim>\<open>results.sort(key=..., reverse=True)\<close>. Tuples compare lexicographically
  (\<open>False < True\<close>). The sort is stable, and with \<^verbatim>\<open>reverse=True\<close> it still keeps
  the original order of records with equal keys: CPython reverses the list,
  sorts it stably in ascending order and reverses it again.
\<close>

definition sort_key_of :: "pylib \<Rightarrow> RomMatch \<Rightarrow> real \<times> bool \<times> int" where
  "sort_key_of L x =
     (float_add L (score x) (if source_type x = u ''translations'' then 10 else 0),
      source_type x = u ''translations'',
      - size_bytes x)"

definition sort_results :: "pylib \<Rightarrow> RomMatch list \<Rightarrow> RomMatch list" where
  "sort_results L results = rev (sort_key (sort_key_of L) (rev results))"

text \<open>\<^verbatim>\<open>xs[:n]\<close>: a negative \<open>n\<close> counts from the end.\<close>

definition slice_to :: "'a list \<Rightarrow> int \<Rightarrow> 'a list" where
  "slice_to xs n = (if 0 \<le> n then take (nat n) xs else take (length xs - nat (- n)) xs)"

definition search ::
  "pylib \<Rightarrow> engine \<Rightarrow> filesystem \<Rightarrow> str \<Rightarrow> str \<Rightarrow> int
     \<Rightarrow> pyexn + (RomMatch list \<times> engine \<times> filesystem)" where
  "search L E fs query system max_results =
     (if strip L query = [] then Inr ([], E, fs)
      else case ensure_index L E fs system of
             Inl e \<Rightarrow> Inl e
           | Inr (E1, fs1) \<Rightarrow>
               let matches = (case map_of (file_index E1) system of None \<Rightarrow> [] | Some m \<Rightarrow> m);
                   results = collect_results L (fuzzy_threshold E1) query matches;
                   results = sort_results L results
               in Inr (slice_to results max_results, E1, fs1))"

section \<open>A library and a world to evaluate on\<close>

text \<open>
  Closed evaluations need one concrete library. \<open>sample_lib\<close> agrees with CPython
  on the strings evaluated below, which hold ASCII characters and U+0130 (LATIN
  CAPITAL LETTER I WITH DOT ABOVE, code point 304) only:
  \<^item> \<open>py_isspace\<close> is CPython's table of whitespace code points, in full;
  \<^item> \<^verbatim>\<open>str.lower\<close> maps \<open>A\<close> to \<open>Z\<close> to \<open>a\<close> to \<open>z\<close> and U+0130 to the two code points
    U+0069 U+0307 (the lowercased one-character string has length 2 in Python 3), and
    leaves the other
    ASCII characters alone;
  \<^item> NFD decomposes U+0130 into U+0049 U+0307 and leaves ASCII alone; U+0307
    (COMBINING DOT ABOVE) has combining class 230 and ASCII characters have 0;
  \<^item> \<^verbatim>\<open>fuzz.partial_ratio\<close> is 100 when one argument occurs in the other; the scorer
    is evaluated on such pairs only (its other value here is a placeholder);
  \<^item> the sums and products evaluated are exact in double arithmetic;
  \<^item> \<^verbatim>\<open>str\<close> of an integer is its decimal form, and of a whole-number float below
    \<open>10^16\<close> the decimal form followed by \<open>.0\<close>;
  \<^item> the engine only compares digests for equality, so the digest of a text is
    the text itself, in place of MD5;
  \<^item> paths are absolute and normalised, so joining inserts \<open>/\<close> and resolving is
    the identity.
\<close>

definition py_isspace :: "codepoint \<Rightarrow> bool" where
  "py_isspace c =
     ((9 \<le> c \<and> c \<le> 13) \<or> (28 \<le> c \<and> c \<le> 32) \<or> c = 133 \<or> c = 160 \<or> c = 5760
      \<or> (8192 \<le> c \<and> c \<le> 8202) \<or> c = 8232 \<or> c = 8233 \<or> c = 8239 \<or> c = 8287
      \<or> c = 12288)"

definition lower_char :: "codepoint \<Rightarrow> str" where
  "lower_char c =
     (if 65 \<le> c \<and> c \<le> 90 then [c + 32] else if c = 304 then [105, 775] else [c])"

definition nfd_char :: "codepoint \<Rightarrow> str" where
  "nfd_char c = (if c = 304 then [73, 775] else [c])"

fun decimal :: "nat \<Rightarrow> str" where
  "decimal n = (if n < 10 then [48 + n] else decimal (n div 10) @ [48 + n mod 10])"

declare decimal.simps [simp del]

definition sample_lib :: pylib where
  "sample_lib =
     \<lparr>str_isspace = py_isspace,
      str_lower = (\<lambda>s. concat (map lower_char s)),
      normalize_NFD = (\<lambda>s. concat (map nfd_char s)),
      combining = (\<lambda>c. if c = 775 then 230 else 0),
      RAPIDFUZZ_AVAILABLE = True,
      partial_ratio = (\<lambda>a b. if str_in a b \<or> str_in b a then 100 else 0),
      SequenceMatcher_ratio = (\<lambda>a b. if a = b then 1 else 0),
      float_add = (+),
      float_mul = (*),
      md5_hexdigest = (\<lambda>s. s),
      str_float = (\<lambda>r. decimal (nat \<lfloor>r\<rfloor>) @ u ''.0''),
      str_int = (\<lambda>i. decimal (nat i)),
      path_join = (\<lambda>a b. a @ u ''/'' @ b),
      path_resolve = (\<lambda>p. p)\<rparr>"

text \<open>
  The collection \<^verbatim>\<open>SNES\<close> under \<^verbatim>\<open>/roms\<close>: one official file and a text file that is
  not a ROM, and two translations that differ in name and size. \<open>fresh_engine\<close>
  is the engine as constructed, \<open>sample_engine\<close> the engine once the collection
  is indexed, \<open>cached_fs\<close> the filesystem once the index is saved, and
  \<open>corrupt_fs\<close> a filesystem whose cache file holds the JSON document \<^verbatim>\<open>[]\<close>.
\<close>

definition zelda_official :: RomMatch where
  "zelda_official =
     \<lparr>filename = u ''Zelda (USA).sfc'', full_path = u ''/roms/Official/SNES/Zelda (USA).sfc'',
      source_type = u ''official'', score = 100, size_bytes = 300,
      modified_time = 1600000000\<rparr>"

definition zelda_a :: RomMatch where
  "zelda_a =
     \<lparr>filename = u ''zelda a.zip'', full_path = u ''/roms/Translations/SNES/zelda a.zip'',
      source_type = u ''translations'', score = 100, size_bytes = 200,
      modified_time = 1600000001\<rparr>"

definition zelda_b :: RomMatch where
  "zelda_b =
     \<lparr>filename = u ''zelda b.zip'', full_path = u ''/roms/Translations/SNES/zelda b.zip'',
      source_type = u ''translations'', score = 100, size_bytes = 100,
      modified_time = 1600000002\<rparr>"

definition file_entry :: "RomMatch \<Rightarrow> entry" where
  "file_entry m =
     \<lparr>e_name = filename m, e_path = full_path m, e_is_file = True,
      e_stat = Some \<lparr>st_mtime = modified_time m, st_size = size_bytes m\<rparr>\<rparr>"

definition sample_fs :: filesystem where
  "sample_fs =
     \<lparr>dirs =
        [u ''/roms/Official/SNES'' \<mapsto>
           \<lparr>d_stat = Some \<lparr>st_mtime = 1700000000, st_size = 4096\<rparr>,
            d_rglob =
              [file_entry zelda_official,
               \<lparr>e_name = u ''readme.txt'', e_path = u ''/roms/Official/SNES/readme.txt'',
                e_is_file = True,
                e_stat = Some \<lparr>st_mtime = 1600000003, st_size = 12\<rparr>\<rparr>]\<rparr>,
         u ''/roms/Translations/SNES'' \<mapsto>
           \<lparr>d_stat = Some \<lparr>st_mtime = 1700000001, st_size = 4096\<rparr>,
            d_rglob = [file_entry zelda_a, file_entry zelda_b]\<rparr>],
      files = Map.empty,
      write_fails = (\<lambda>p. False),
      clock = 1700000002\<rparr>"

definition fresh_engine :: engine where
  "fresh_engine = init sample_lib (u ''/roms'') None DEFAULT_FUZZY_THRESHOLD None"

definition sample_index :: collection_index where
  "sample_index =
     [(u ''official'', [zelda_official]), (u ''translations'', [zelda_a, zelda_b])]"

definition sample_engine :: engine where
  "sample_engine = fresh_engine\<lparr>file_index := [(u ''SNES'', sample_index)]\<rparr>"

definition cached_fs :: filesystem where
  "cached_fs = save_cache sample_lib sample_engine sample_fs (u ''SNES'')"

definition corrupt_fs :: filesystem where
  "corrupt_fs =
     sample_fs\<lparr>files := [u ''/roms/.rom_cache/SNES.json'' \<mapsto> JsonText (JArr [])]\<rparr>"

section \<open>Facts about the string functions\<close>

lemma strip_whitespace_only: "\<forall>c\<in>set q. str_isspace L c \<Longrightarrow> strip L q = []"
  by (auto simp: strip_def dest: set_dropWhileD)




lemma split_sep_nonempty: "split_sep sep w s \<noteq> []"
  by (induction s arbitrary: w) auto


lemma prefilter_no_words:
  assumes "3 \<le> length (strip L query)"
    and "\<forall>w\<in>set (str_split L (str_lower L query)). length w = 1"
    and "\<forall>w\<in>set (str_split L (normalize_text L query)). length w = 1"
  shows "\<not> contains_all_words L query fname"
proof -
  have a: "filter (\<lambda>w. 2 \<le> length w) (str_split L (str_lower L query)) = []"
    using assms(2) by (auto simp: filter_empty_conv)
  have b: "filter (\<lambda>w. 2 \<le> length w) (str_split L (normalize_text L query)) = []"
    using assms(3) by (auto simp: filter_empty_conv)
  show ?thesis
    unfolding contains_all_words_def Let_def a b
    using assms(1) by (simp add: required_matches_def)
qed

section \<open>Facts about the search pipeline\<close>

lemma match_files_iff:
  "r \<in> set (match_files L t q ms) \<longleftrightarrow>
     (\<exists>m \<in> set ms. contains_all_words L q (filename m)
        \<and> t \<le> fuzzy_match_score L q (filename m)
        \<and> r = \<lparr>filename = filename m, full_path = full_path m, source_type = source_type m,
               score = fuzzy_match_score L q (filename m), size_bytes = size_bytes m,
               modified_time = modified_time m\<rparr>)"
  by (induction ms) (auto simp: Let_def)

lemma collect_results_iff:
  "r \<in> set (collect_results L t q idx) \<longleftrightarrow>
     (\<exists>tag records. (tag, records) \<in> set idx \<and> r \<in> set (match_files L t q records))"
  by (induction idx) (auto, blast+)

lemma match_files_rejected:
  "\<forall>f. \<not> contains_all_words L q f \<Longrightarrow> match_files L t q ms = []"
  by (induction ms) auto

lemma collect_results_rejected:
  "\<forall>f. \<not> contains_all_words L q f \<Longrightarrow> collect_results L t q idx = []"
  by (induction idx) (auto simp: match_files_rejected)

lemma set_sort_results: "set (sort_results L xs) = set xs"
  by (simp add: sort_results_def)

lemma length_sort_results: "length (sort_results L xs) = length xs"
  by (simp add: sort_results_def)

lemma set_slice_to: "set (slice_to xs n) \<subseteq> set xs"
  by (auto simp: slice_to_def dest: in_set_takeD)

lemma slice_to_all: "int (length xs) \<le> n \<Longrightarrow> slice_to xs n = xs"
  by (simp add: slice_to_def)

lemma sorted_sort_results:
  "sorted_wrt (\<lambda>a b. sort_key_of L b \<le> sort_key_of L a) (sort_results L xs)"
proof -
  have "sorted (map (sort_key_of L) (sort_key (sort_key_of L) (rev xs)))"
    by (rule sorted_sort_key)
  then have "sorted_wrt (\<lambda>a b. sort_key_of L a \<le> sort_key_of L b)
               (sort_key (sort_key_of L) (rev xs))"
    by (simp add: sorted_map)
  then show ?thesis
    by (simp add: sort_results_def sorted_wrt_rev)
qed

lemma sorted_slice_to: "sorted_wrt P xs \<Longrightarrow> sorted_wrt P (slice_to xs n)"
  by (simp add: slice_to_def sorted_wrt_take)

lemma load_cache_engine:
  "load_cache L E fs system = Inr (loaded, E1) \<Longrightarrow>
     (if loaded then \<exists>m. E1 = E\<lparr>file_index := AList.update system m (file_index E)\<rparr>
      else E1 = E)"
  by (auto simp: load_cache_def load_cache_try_def bind_def Let_def
      split: option.splits sum.splits if_splits file_content.splits)

lemma ensure_index_present:
  "map_of (file_index E) system \<noteq> None \<Longrightarrow> ensure_index L E fs system = Inr (E, fs)"
  by (simp add: ensure_index_def)

lemma ensure_index_preserves:
  assumes "ensure_index L E fs system = Inr (E1, fs1)"
    and "map_of (file_index E) s = Some idx"
  shows "map_of (file_index E1) s = Some idx"
proof (cases "map_of (file_index E) system = None")
  case False
  with assms show ?thesis by (simp add: ensure_index_def)
next
  case True
  with assms(2) have ne: "s \<noteq> system" by auto
  from assms(1) True obtain loaded E2 where
    lc: "load_cache L E fs system = Inr (loaded, E2)"
    by (auto simp: ensure_index_def split: sum.splits)
  from load_cache_engine[OF lc] have "map_of (file_index E2) s = Some idx"
    using ne assms(2) by (auto simp: update_conv' split: if_splits)
  with assms(1) True lc ne show ?thesis
    by (auto simp: ensure_index_def Let_def update_conv' split: if_splits)
qed

lemma ensure_index_threshold:
  assumes "ensure_index L E fs system = Inr (E1, fs1)"
  shows "fuzzy_threshold E1 = fuzzy_threshold E"
proof (cases "map_of (file_index E) system = None")
  case False
  with assms show ?thesis by (simp add: ensure_index_def)
next
  case True
  from assms True obtain loaded E2 where
    lc: "load_cache L E fs system = Inr (loaded, E2)"
    by (auto simp: ensure_index_def split: sum.splits)
  from load_cache_engine[OF lc] have "fuzzy_threshold E2 = fuzzy_threshold E"
    by (auto split: if_splits)
  with assms True lc show ?thesis
    by (auto simp: ensure_index_def Let_def split: if_splits)
qed

lemma search_unfold:
  assumes "strip L query \<noteq> []"
    and "search L E fs query system max_results = Inr (rs, E1, fs1)"
  shows "ensure_index L E fs system = Inr (E1, fs1) \<and>
         rs = slice_to (sort_results L (collect_results L (fuzzy_threshold E) query
                (case map_of (file_index E1) system of None \<Rightarrow> [] | Some m \<Rightarrow> m)))
                max_results"
proof -
  from assms obtain E2 fs2 where ei: "ensure_index L E fs system = Inr (E2, fs2)"
    by (auto simp: search_def split: sum.splits)
  with assms have "E2 = E1" "fs2 = fs1"
    by (auto simp: search_def Let_def)
  with ei assms ensure_index_threshold[OF ei] show ?thesis
    by (auto simp: search_def Let_def)
qed

lemma search_results_subset:
  assumes "search L E fs query system max_results = Inr (rs, E1, fs1)"
  shows "set rs \<subseteq> set (collect_results L (fuzzy_threshold E) query
                (case map_of (file_index E1) system of None \<Rightarrow> [] | Some m \<Rightarrow> m))"
proof (cases "strip L query = []")
  case True
  with assms show ?thesis by (simp add: search_def)
next
  case False
  from search_unfold[OF False assms] show ?thesis
    using set_slice_to set_sort_results by fastforce
qed

section \<open>Facts about the cache file\<close>

text \<open>
  What \<^verbatim>\<open>_save_cache\<close> writes, \<^verbatim>\<open>_load_cache\<close> cannot read: a saved record has no
  key \<^verbatim>\<open>score\<close>, so loading a saved index that holds a record ends in \<open>KeyError\<close>
  and is reported as a miss (\<open>saved_cache_misses\<close>). And \<^verbatim>\<open>_load_cache\<close> returns
  \<open>True\<close> only for a JSON object whose version and two fingerprints are the
  expected ones, storing the whole decoded index then and nothing otherwise
  (\<open>load_cache_accepts\<close>, \<open>load_cache_engine\<close>).
\<close>

lemma load_matches_saved: "load_matches (map save_match (m # ms)) = Inl KeyError"
  by (simp add: load_match_def save_match_def subscript_def bind_def u_def)

lemma load_sources_saved:
  "\<exists>tr\<in>set idx. snd tr \<noteq> [] \<Longrightarrow>
     load_sources (map (\<lambda>(tag, records). (tag, JArr (map save_match records))) idx) acc
       = Inl KeyError"
proof (induction idx arbitrary: acc)
  case Nil
  then show ?case by simp
next
  case (Cons tr idx)
  obtain tag records where tr: "tr = (tag, records)" by (cases tr)
  show ?case
  proof (cases records)
    case Nil
    with Cons.prems tr have "\<exists>tr\<in>set idx. snd tr \<noteq> []" by auto
    from Cons.IH[OF this] tr Nil show ?thesis by (simp add: iterate_def)
  next
    case (Cons m ms)
    with tr show ?thesis
      using load_matches_saved[of m ms] by (simp add: iterate_def)
  qed
qed

lemma hash_after_save:
  "calculate_dir_hash L (save_cache L E fs system) d = calculate_dir_hash L fs d"
  by (simp add: calculate_dir_hash_def save_cache_def Let_def)

lemma saved_cache_misses:
  assumes "map_of (file_index E) system = Some idx"
    and "(tag, records) \<in> set idx" and "records \<noteq> []"
    and "\<not> write_fails fs (get_cache_file_path L E system)"
    and "cache_dir E' = cache_dir E" and "official_dir E' = official_dir E"
    and "translations_dir E' = translations_dir E"
  shows "load_cache L E' (save_cache L E fs system) system = Inr (False, E')"
proof -
  have ex: "\<exists>tr\<in>set idx. snd tr \<noteq> []"
    using assms(2,3) by force
  have path: "get_cache_file_path L E' system = get_cache_file_path L E system"
    by (simp add: get_cache_file_path_def assms(5))
  show ?thesis
    unfolding load_cache_def Let_def path
    using assms(1,4)
    by (simp add: save_cache_def Let_def load_cache_try_def bind_def dict_get_def
        dict_items_def assms(6,7) calculate_dir_hash_def load_sources_saved[OF ex] u_def)
qed

lemma load_cache_accepts:
  assumes "load_cache L E fs system = Inr (True, E1)"
  shows "\<exists>kvs matches.
           files fs (get_cache_file_path L E system) = Some (JsonText (JObj kvs))
         \<and> map_of kvs (u ''version'') = Some (JStr CACHE_VERSION)
         \<and> map_of kvs (u ''official_hash'')
             = Some (JStr (calculate_dir_hash L fs (path_join L (official_dir E) system)))
         \<and> map_of kvs (u ''translations_hash'')
             = Some (JStr (calculate_dir_hash L fs (path_join L (translations_dir E) system)))
         \<and> E1 = E\<lparr>file_index := AList.update system matches (file_index E)\<rparr>"
  using assms
  by (auto simp: load_cache_def load_cache_try_def bind_def Let_def dict_get_def
      split: option.splits sum.splits if_splits file_content.splits json.splits)

section \<open>Evaluations on the sample world\<close>

lemma sample_lib_simps [simp]:
  "str_isspace sample_lib = py_isspace"
  "str_lower sample_lib = (\<lambda>s. concat (map lower_char s))"
  "normalize_NFD sample_lib = (\<lambda>s. concat (map nfd_char s))"
  "combining sample_lib = (\<lambda>c. if c = 775 then 230 else 0)"
  "RAPIDFUZZ_AVAILABLE sample_lib = True"
  "partial_ratio sample_lib = (\<lambda>a b. if str_in a b \<or> str_in b a then 100 else 0)"
  "float_add sample_lib = (+)"
  "md5_hexdigest sample_lib = (\<lambda>s. s)"
  "str_float sample_lib = (\<lambda>r. decimal (nat \<lfloor>r\<rfloor>) @ u ''.0'')"
  "str_int sample_lib = (\<lambda>i. decimal (nat i))"
  "path_join sample_lib = (\<lambda>a b. a @ u ''/'' @ b)"
  "path_resolve sample_lib = (\<lambda>p. p)"
  by (simp_all add: sample_lib_def)

lemmas sample_defs =
  u_def lower_char_def nfd_char_def py_isspace_def strip_def str_split_def
  required_matches_def normalize_text_def

lemma prefilter_zelda:
  "contains_all_words sample_lib (u ''zelda'') (filename zelda_official)"
  "contains_all_words sample_lib (u ''zelda'') (filename zelda_a)"
  "contains_all_words sample_lib (u ''zelda'') (filename zelda_b)"
  by (simp_all add: contains_all_words_def zelda_official_def zelda_a_def zelda_b_def
      sample_defs)

lemma score_zelda:
  "fuzzy_match_score sample_lib (u ''zelda'') (filename zelda_official) = 100"
  "fuzzy_match_score sample_lib (u ''zelda'') (filename zelda_a) = 100"
  "fuzzy_match_score sample_lib (u ''zelda'') (filename zelda_b) = 100"
  by (simp_all add: fuzzy_match_score_def zelda_official_def zelda_a_def zelda_b_def
      sample_defs)

lemma fresh_engine_fields:
  "official_dir fresh_engine = u ''/roms/Official''"
  "translations_dir fresh_engine = u ''/roms/Translations''"
  "cache_dir fresh_engine = u ''/roms/.rom_cache''"
  "fuzzy_threshold fresh_engine = 40"
  "file_index fresh_engine = []"
  by (simp_all add: fresh_engine_def init_def Let_def DEFAULT_FUZZY_THRESHOLD_def u_def)

lemma sample_engine_fields:
  "official_dir sample_engine = u ''/roms/Official''"
  "translations_dir sample_engine = u ''/roms/Translations''"
  "cache_dir sample_engine = u ''/roms/.rom_cache''"
  "fuzzy_threshold sample_engine = 40"
  "file_index sample_engine = [(u ''SNES'', sample_index)]"
  by (simp_all add: sample_engine_def fresh_engine_fields)

lemma cache_path_sample:
  "get_cache_file_path sample_lib sample_engine (u ''SNES'') = u ''/roms/.rom_cache/SNES.json''"
  "get_cache_file_path sample_lib fresh_engine (u ''SNES'') = u ''/roms/.rom_cache/SNES.json''"
  by (simp_all add: get_cache_file_path_def sample_engine_fields fresh_engine_fields u_def)

lemma collect_zelda:
  "collect_results sample_lib 40 (u ''zelda'') sample_index = [zelda_official, zelda_a, zelda_b]"
  by (simp add: sample_index_def prefilter_zelda score_zelda)
     (simp add: zelda_official_def zelda_a_def zelda_b_def)

lemma sort_zelda:
  "sort_results sample_lib [zelda_official, zelda_a, zelda_b]
     = [zelda_b, zelda_a, zelda_official]"
  by (simp add: sort_results_def sort_key_of_def zelda_official_def zelda_a_def zelda_b_def
      u_def)

lemma search_zelda:
  "search sample_lib sample_engine sample_fs (u ''zelda'') (u ''SNES'') n =
     Inr (slice_to [zelda_b, zelda_a, zelda_official] n, sample_engine, sample_fs)"
proof -
  have "strip sample_lib (u ''zelda'') \<noteq> []"
    by (simp add: sample_defs)
  moreover have "ensure_index sample_lib sample_engine sample_fs (u ''SNES'')
      = Inr (sample_engine, sample_fs)"
    by (simp add: ensure_index_def sample_engine_fields)
  ultimately show ?thesis
    by (simp add: search_def sample_engine_fields collect_zelda sort_zelda)
qed

lemma build_sample:
  "build_index sample_lib fresh_engine sample_fs (u ''SNES'') = sample_index"
  by (simp add: build_index_def fresh_engine_fields sample_fs_def scan_directory_def
      file_entry_def is_rom_file_def ROM_EXTENSIONS_def sample_index_def
      zelda_official_def zelda_a_def zelda_b_def u_def lower_char_def)

lemma no_cache_yet:
  "load_cache sample_lib fresh_engine sample_fs (u ''SNES'') = Inr (False, fresh_engine)"
  by (simp add: load_cache_def get_cache_file_path_def sample_fs_def)

lemma ensure_sample:
  "ensure_index sample_lib fresh_engine sample_fs (u ''SNES'') = Inr (sample_engine, cached_fs)"
  by (simp add: ensure_index_def fresh_engine_fields no_cache_yet build_sample Let_def
      sample_engine_def cached_fs_def)

section \<open>The claims\<close>

subsection \<open>C1: cache round-trip\<close>

text \<open>
  C1 says that a \<^verbatim>\<open>load\<close> after a \<^verbatim>\<open>save\<close> of the same collection, on an unchanged
  filesystem, succeeds and gives back the saved index. The code does not: on
  the sample world, ensuring the index of \<^verbatim>\<open>SNES\<close> with a fresh engine builds
  the index of three records and saves it; loading that cache file with a
  fresh engine then raises \<open>KeyError\<close> inside the \<^verbatim>\<open>try\<close> (at \<^verbatim>\<open>match['score']\<close>: the key
  that \<^verbatim>\<open>_save_cache\<close> does not write), and \<^verbatim>\<open>_load_cache\<close> returns \<open>False\<close> with the
  engine's index still empty. The same happens for every saved index that
  holds a record (\<open>saved_cache_misses\<close>).
\<close>

theorem cache_round_trip_misses:
  "ensure_index sample_lib fresh_engine sample_fs (u ''SNES'') = Inr (sample_engine, cached_fs)
   \<and> (case files cached_fs (u ''/roms/.rom_cache/SNES.json'') of
        None \<Rightarrow> False
      | Some content \<Rightarrow>
          load_cache_try sample_lib fresh_engine cached_fs (u ''SNES'') content = Inl KeyError)
   \<and> load_cache sample_lib fresh_engine cached_fs (u ''SNES'') = Inr (False, fresh_engine)"
proof -
  have same_dirs: "dirs cached_fs = dirs sample_fs"
    by (simp add: cached_fs_def save_cache_def Let_def)
  have hash: "calculate_dir_hash sample_lib cached_fs d = calculate_dir_hash sample_lib sample_fs d"
    for d
    by (simp add: calculate_dir_hash_def same_dirs)
  have stored: "files cached_fs (u ''/roms/.rom_cache/SNES.json'') =
      Some (JsonText (JObj [(u ''version'', JStr CACHE_VERSION),
                  (u ''timestamp'', JFloat (clock sample_fs)),
                  (u ''official_hash'',
                     JStr (calculate_dir_hash sample_lib sample_fs (u ''/roms/Official/SNES''))),
                  (u ''translations_hash'',
                     JStr (calculate_dir_hash sample_lib sample_fs
                             (u ''/roms/Translations/SNES''))),
                  (u ''matches'',
                     JObj [(u ''official'', JArr [save_match zelda_official]),
                           (u ''translations'',
                              JArr [save_match zelda_a, save_match zelda_b])])]))"
    unfolding cached_fs_def save_cache_def Let_def cache_path_sample
    by (simp add: sample_engine_fields sample_index_def sample_fs_def u_def)
  have body: "load_cache_try sample_lib fresh_engine cached_fs (u ''SNES'')
      (JsonText (JObj [(u ''version'', JStr CACHE_VERSION),
                  (u ''timestamp'', JFloat (clock sample_fs)),
                  (u ''official_hash'',
                     JStr (calculate_dir_hash sample_lib sample_fs (u ''/roms/Official/SNES''))),
                  (u ''translations_hash'',
                     JStr (calculate_dir_hash sample_lib sample_fs
                             (u ''/roms/Translations/SNES''))),
                  (u ''matches'',
                     JObj [(u ''official'', JArr [save_match zelda_official]),
                           (u ''translations'',
                              JArr [save_match zelda_a, save_match zelda_b])])]))
      = Inl KeyError"
    by (simp add: load_cache_try_def bind_def dict_get_def dict_items_def hash
        fresh_engine_fields iterate_def load_match_def subscript_def save_match_def u_def
        Let_def)
  have "load_cache sample_lib fresh_engine cached_fs (u ''SNES'') = Inr (False, fresh_engine)"
    unfolding load_cache_def Let_def cache_path_sample by (simp add: stored body)
  with ensure_sample stored body show ?thesis by simp
qed

subsection \<open>C2: direction of the size tie-break\<close>

text \<open>
  C2 as the code has it: among the records \<^verbatim>\<open>search\<close> returns, of two with equal
  score and equal provenance tag the one with the smaller size comes first (the
  key is \<^verbatim>\<open>-x.size\<close> and the sort is descending). Stated on positions: if the
  record at position \<open>i\<close> is smaller than the record at position \<open>j\<close>, then \<open>i < j\<close>.
\<close>

theorem size_tie_break:
  assumes "search L E fs query system max_results = Inr (rs, E1, fs1)"
    and "i < length rs" and "j < length rs"
    and "score (rs ! i) = score (rs ! j)"
    and "source_type (rs ! i) = source_type (rs ! j)"
    and "size_bytes (rs ! i) < size_bytes (rs ! j)"
  shows "i < j"
proof (rule ccontr)
  assume "\<not> i < j"
  with assms(6) have ji: "j < i" by (cases "i = j") auto
  have "sorted_wrt (\<lambda>a b. sort_key_of L b \<le> sort_key_of L a) rs"
  proof (cases "strip L query = []")
    case True
    with assms(1) show ?thesis by (simp add: search_def)
  next
    case False
    from search_unfold[OF False assms(1)] show ?thesis
      by (simp add: sorted_slice_to sorted_sort_results)
  qed
  from sorted_wrt_nth_less[OF this ji assms(2)]
  have "sort_key_of L (rs ! i) \<le> sort_key_of L (rs ! j)" .
  with assms(4,5,6) show False
    by (simp add: sort_key_of_def)
qed

text \<open>
  C2 as written (the larger record first) fails: the two translations of the
  sample world score the same for \<^verbatim>\<open>zelda\<close>; the index holds the one of 200
  bytes first, and \<^verbatim>\<open>search\<close> returns the one of 100 bytes first.
\<close>

theorem size_tie_break_counterexample:
  "search sample_lib sample_engine sample_fs (u ''zelda'') (u ''SNES'') 2
     = Inr ([zelda_b, zelda_a], sample_engine, sample_fs)
   \<and> score zelda_b = score zelda_a
   \<and> source_type zelda_b = source_type zelda_a
   \<and> size_bytes zelda_b < size_bytes zelda_a"
  by (simp add: search_zelda slice_to_def zelda_a_def zelda_b_def)

text \<open>The theorem of C2 at the first two records of the full result.\<close>

theorem size_tie_break_witness:
  "search sample_lib sample_engine sample_fs (u ''zelda'') (u ''SNES'') 50
     = Inr ([zelda_b, zelda_a, zelda_official], sample_engine, sample_fs)
   \<and> score ([zelda_b, zelda_a, zelda_official] ! 0)
       = score ([zelda_b, zelda_a, zelda_official] ! 1)
   \<and> source_type ([zelda_b, zelda_a, zelda_official] ! 0)
       = source_type ([zelda_b, zelda_a, zelda_official] ! 1)
   \<and> size_bytes ([zelda_b, zelda_a, zelda_official] ! 0)
       < size_bytes ([zelda_b, zelda_a, zelda_official] ! 1)
   \<and> (0::nat) < 1"
proof -
  have s: "search sample_lib sample_engine sample_fs (u ''zelda'') (u ''SNES'') 50
     = Inr ([zelda_b, zelda_a, zelda_official], sample_engine, sample_fs)"
    by (simp add: search_zelda slice_to_def)
  have h: "score ([zelda_b, zelda_a, zelda_official] ! 0)
       = score ([zelda_b, zelda_a, zelda_official] ! 1)"
    "source_type ([zelda_b, zelda_a, zelda_official] ! 0)
       = source_type ([zelda_b, zelda_a, zelda_official] ! 1)"
    "size_bytes ([zelda_b, zelda_a, zelda_official] ! 0)
       < size_bytes ([zelda_b, zelda_a, zelda_official] ! 1)"
    by (simp_all add: zelda_a_def zelda_b_def)
  from size_tie_break[OF s _ _ h] have "(0::nat) < 1" by simp
  with s h show ?thesis by simp
qed

subsection \<open>C3: extension filter\<close>

text \<open>
  C3 says that a filename without a dot is never recognized. The code
  recognizes the file named \<^verbatim>\<open>zip\<close>: \<^verbatim>\<open>'zip'.split('.')\<close> is \<^verbatim>\<open>['zip']\<close>, so the whole name
  is taken for the extension.
\<close>

theorem extensionless_file_recognized:
  "of_char CHR ''.'' \<notin> set (u ''zip'') \<and> is_rom_file sample_lib (u ''zip'')"
  by (simp add: is_rom_file_def ROM_EXTENSIONS_def u_def lower_char_def)

subsection \<open>C4: quota of the lexical pre-filter\<close>




subsection \<open>C5: short-query bypass\<close>

text \<open>
  C5 as the code has it: when the query, with leading and trailing whitespace
  stripped, has fewer than 3 characters (inner whitespace counts), the
  pre-filter passes every filename.
\<close>

theorem short_query_bypass:
  "length (strip L query) < 3 \<Longrightarrow> contains_all_words L query fname"
  by (simp add: contains_all_words_def)

text \<open>
  C5 as written (fewer than 3 non-whitespace characters) fails at its own
  example: \<^verbatim>\<open>a b\<close> has 2 non-whitespace characters and stripped length 3, and the
  pre-filter rejects the file \<^verbatim>\<open>a b.zip\<close>.
\<close>

theorem short_query_bypass_counterexample:
  "length (filter (\<lambda>c. \<not> str_isspace sample_lib c) (u ''a b'')) < 3
   \<and> \<not> contains_all_words sample_lib (u ''a b'') (u ''a b.zip'')"
  by (simp add: contains_all_words_def sample_defs)

text \<open>The theorem of C5 at the query \<^verbatim>\<open>ab\<close>.\<close>

theorem short_query_bypass_witness:
  "length (strip sample_lib (u ''ab'')) < 3
   \<and> contains_all_words sample_lib (u ''ab'') (u ''zelda a.zip'')"
proof -
  have h: "length (strip sample_lib (u ''ab'')) < 3"
    by (simp add: sample_defs)
  from short_query_bypass[OF h] h show ?thesis by simp
qed

subsection \<open>C6: threshold boundary\<close>

text \<open>
  C6 as the code has it. Let the query be neither empty nor whitespace only,
  and let \<open>m\<close> be an indexed record of the collection that passes the pre-filter.
  Then \<open>m\<close>, with its score replaced by the measured one, is in the list
  \<^verbatim>\<open>results\<close> that \<^verbatim>\<open>search\<close> accumulates exactly when the measured score is at least
  the configured threshold (a score equal to the threshold is in, any lower
  score is out); a record below the threshold is never returned; and a record
  at or above the threshold is returned whenever the accumulated list is not
  longer than \<^verbatim>\<open>max_results\<close>.
\<close>

theorem threshold_boundary:
  assumes "strip L query \<noteq> []"
    and "search L E fs query system max_results = Inr (rs, E1, fs1)"
    and "map_of (file_index E1) system = Some idx"
    and "(tag, records) \<in> set idx" and "m \<in> set records"
    and "contains_all_words L query (filename m)"
  shows "(m\<lparr>score := fuzzy_match_score L query (filename m)\<rparr>
            \<in> set (collect_results L (fuzzy_threshold E) query idx)
          \<longleftrightarrow> fuzzy_threshold E \<le> fuzzy_match_score L query (filename m))
       \<and> (m\<lparr>score := fuzzy_match_score L query (filename m)\<rparr> \<in> set rs
          \<longrightarrow> fuzzy_threshold E \<le> fuzzy_match_score L query (filename m))
       \<and> (int (length (collect_results L (fuzzy_threshold E) query idx)) \<le> max_results
          \<longrightarrow> (m\<lparr>score := fuzzy_match_score L query (filename m)\<rparr> \<in> set rs
               \<longleftrightarrow> fuzzy_threshold E \<le> fuzzy_match_score L query (filename m)))"
proof -
  let ?s = "fuzzy_match_score L query (filename m)"
  let ?r = "m\<lparr>score := ?s\<rparr>"
  let ?K = "collect_results L (fuzzy_threshold E) query idx"
  have rs: "rs = slice_to (sort_results L ?K) max_results"
    using search_unfold[OF assms(1,2)] assms(3) by simp
  have kept: "?r \<in> set ?K \<longleftrightarrow> fuzzy_threshold E \<le> ?s"
  proof
    assume "?r \<in> set ?K"
    then obtain m' :: RomMatch
      where t: "fuzzy_threshold E \<le> fuzzy_match_score L query (filename m')"
      and e: "?r = \<lparr>filename = filename m', full_path = full_path m',
               source_type = source_type m',
               score = fuzzy_match_score L query (filename m'), size_bytes = size_bytes m',
               modified_time = modified_time m'\<rparr>"
      by (auto simp: collect_results_iff match_files_iff)
    from arg_cong[OF e, of filename] have "filename m = filename m'" by simp
    with t show "fuzzy_threshold E \<le> ?s" by simp
  next
    assume "fuzzy_threshold E \<le> ?s"
    with assms(4,5,6) show "?r \<in> set ?K"
      by (auto simp: collect_results_iff match_files_iff
          intro!: exI[of _ tag] exI[of _ records] bexI[of _ m])
  qed
  have sub: "set rs \<subseteq> set ?K"
    unfolding rs using set_slice_to set_sort_results by fastforce
  have all: "set rs = set ?K" if "int (length ?K) \<le> max_results"
    unfolding rs using that by (simp add: slice_to_all length_sort_results set_sort_results)
  from kept sub all show ?thesis by blast
qed

text \<open>
  C6 as written (\<^verbatim>\<open>search\<close> includes every record that passes the pre-filter and
  meets the threshold) fails: with \<^verbatim>\<open>max_results = 1\<close> the translation of 200 bytes
  passes the pre-filter for \<^verbatim>\<open>zelda\<close> and scores 100 against the threshold 40, and
  \<^verbatim>\<open>search\<close> returns the other translation only.
\<close>

theorem threshold_boundary_counterexample:
  "contains_all_words sample_lib (u ''zelda'') (filename zelda_a)
   \<and> fuzzy_threshold sample_engine
       \<le> fuzzy_match_score sample_lib (u ''zelda'') (filename zelda_a)
   \<and> search sample_lib sample_engine sample_fs (u ''zelda'') (u ''SNES'') 1
       = Inr ([zelda_b], sample_engine, sample_fs)
   \<and> zelda_a\<lparr>score := fuzzy_match_score sample_lib (u ''zelda'') (filename zelda_a)\<rparr>
       \<notin> set [zelda_b]"
  by (simp add: search_zelda slice_to_def prefilter_zelda score_zelda sample_engine_fields)
     (simp add: zelda_a_def zelda_b_def)

text \<open>The theorem of C6 at the same record with \<^verbatim>\<open>max_results = 50\<close>.\<close>

theorem threshold_boundary_witness:
  "strip sample_lib (u ''zelda'') \<noteq> []
   \<and> search sample_lib sample_engine sample_fs (u ''zelda'') (u ''SNES'') 50
       = Inr ([zelda_b, zelda_a, zelda_official], sample_engine, sample_fs)
   \<and> contains_all_words sample_lib (u ''zelda'') (filename zelda_a)
   \<and> fuzzy_threshold sample_engine
       \<le> fuzzy_match_score sample_lib (u ''zelda'') (filename zelda_a)
   \<and> zelda_a\<lparr>score := fuzzy_match_score sample_lib (u ''zelda'') (filename zelda_a)\<rparr>
       \<in> set [zelda_b, zelda_a, zelda_official]"
proof -
  have h1: "strip sample_lib (u ''zelda'') \<noteq> []"
    by (simp add: sample_defs)
  have h2: "search sample_lib sample_engine sample_fs (u ''zelda'') (u ''SNES'') 50
       = Inr ([zelda_b, zelda_a, zelda_official], sample_engine, sample_fs)"
    by (simp add: search_zelda slice_to_def)
  have h3: "map_of (file_index sample_engine) (u ''SNES'') = Some sample_index"
    by (simp add: sample_engine_fields)
  have h4: "(u ''translations'', [zelda_a, zelda_b]) \<in> set sample_index"
    by (simp add: sample_index_def)
  have h5: "zelda_a \<in> set [zelda_a, zelda_b]" by simp
  have t: "fuzzy_threshold sample_engine
             \<le> fuzzy_match_score sample_lib (u ''zelda'') (filename zelda_a)"
    by (simp add: score_zelda sample_engine_fields)
  have n: "int (length (collect_results sample_lib (fuzzy_threshold sample_engine)
              (u ''zelda'') sample_index)) \<le> 50"
    by (simp add: sample_engine_fields collect_zelda)
  from threshold_boundary[OF h1 h2 h3 h4 h5 prefilter_zelda(2)] t n
  have "zelda_a\<lparr>score := fuzzy_match_score sample_lib (u ''zelda'') (filename zelda_a)\<rparr>
       \<in> set [zelda_b, zelda_a, zelda_official]" by blast
  with h1 h2 t prefilter_zelda(2) show ?thesis by blast
qed

subsection \<open>C7: empty query\<close>

text \<open>
  C7: for a query that is empty or holds whitespace only, for every collection
  name, limit, engine state and filesystem, \<^verbatim>\<open>search\<close> returns the empty list; it
  raises nothing and changes neither the engine nor the filesystem.
\<close>

theorem search_empty_query:
  assumes "\<forall>c\<in>set query. str_isspace L c"
  shows "search L E fs query system max_results = Inr ([], E, fs)"
  using strip_whitespace_only[OF assms] by (simp add: search_def)

text \<open>The theorem of C7 at the query of a space, a tab and a space.\<close>

theorem search_empty_query_witness:
  "list_all (str_isspace sample_lib) [32, 9, 32]
   \<and> search sample_lib sample_engine sample_fs [32, 9, 32] (u ''SNES'') 50
       = Inr ([], sample_engine, sample_fs)"
proof -
  have h: "\<forall>c\<in>set [32, 9, 32]. str_isspace sample_lib c"
    by (simp add: py_isspace_def)
  from search_empty_query[OF h] h show ?thesis
    by (simp add: py_isspace_def)
qed

subsection \<open>C8: cache validity\<close>

text \<open>
  C8 says that malformed content of the cache file is reported as a miss and
  never as an error. The code raises: when the cache file of \<^verbatim>\<open>SNES\<close> holds the
  JSON document \<^verbatim>\<open>[]\<close>, \<^verbatim>\<open>cache_data.get\<close> raises \<open>AttributeError\<close>, which the \<^verbatim>\<open>except\<close>
  clause of \<^verbatim>\<open>_load_cache\<close> does not catch, and \<^verbatim>\<open>search\<close> passes it on to its caller.
  The other half of C8 holds on the code (\<open>load_cache_accepts\<close>): an index is
  accepted only when the version and both fingerprints match, and never in part.
\<close>

theorem malformed_cache_raises:
  "load_cache sample_lib fresh_engine corrupt_fs (u ''SNES'') = Inl AttributeError
   \<and> search sample_lib fresh_engine corrupt_fs (u ''zelda'') (u ''SNES'') 50
       = Inl AttributeError"
proof -
  have lc: "load_cache sample_lib fresh_engine corrupt_fs (u ''SNES'') = Inl AttributeError"
    unfolding load_cache_def Let_def cache_path_sample
    by (simp add: corrupt_fs_def load_cache_try_def dict_get_def bind_def)
  have "strip sample_lib (u ''zelda'') \<noteq> []"
    by (simp add: sample_defs)
  with lc show ?thesis
    by (simp add: search_def ensure_index_def fresh_engine_fields)
qed

subsection \<open>C9: framing of the result records\<close>

text \<open>
  C9: whenever \<^verbatim>\<open>search\<close> returns, every record it returns agrees with a record of
  the collection's index in filename, full path, provenance tag, size and
  modified time, and its score is the score measured for that filename; every
  collection that was indexed before the call has the same index after it; and
  when the searched collection was already indexed, the engine and the
  filesystem are unchanged altogether.
\<close>

theorem result_record_framing:
  assumes "search L E fs query system max_results = Inr (rs, E1, fs1)"
  shows "(\<forall>r\<in>set rs. \<exists>idx tag records m.
            map_of (file_index E1) system = Some idx \<and> (tag, records) \<in> set idx
            \<and> m \<in> set records
            \<and> filename r = filename m \<and> full_path r = full_path m
            \<and> source_type r = source_type m \<and> size_bytes r = size_bytes m
            \<and> modified_time r = modified_time m
            \<and> score r = fuzzy_match_score L query (filename m))
       \<and> (\<forall>s idx. map_of (file_index E) s = Some idx
             \<longrightarrow> map_of (file_index E1) s = Some idx)
       \<and> (map_of (file_index E) system \<noteq> None \<longrightarrow> E1 = E \<and> fs1 = fs)"
proof (cases "strip L query = []")
  case True
  with assms show ?thesis by (simp add: search_def)
next
  case False
  note unfolded = search_unfold[OF False assms]
  have a: "\<exists>idx tag records m.
            map_of (file_index E1) system = Some idx \<and> (tag, records) \<in> set idx
            \<and> m \<in> set records
            \<and> filename r = filename m \<and> full_path r = full_path m
            \<and> source_type r = source_type m \<and> size_bytes r = size_bytes m
            \<and> modified_time r = modified_time m
            \<and> score r = fuzzy_match_score L query (filename m)" if "r \<in> set rs" for r
  proof -
    from that search_results_subset[OF assms]
    have "r \<in> set (collect_results L (fuzzy_threshold E) query
                (case map_of (file_index E1) system of None \<Rightarrow> [] | Some m \<Rightarrow> m))"
      by blast
    then obtain idx where i: "map_of (file_index E1) system = Some idx"
      and "r \<in> set (collect_results L (fuzzy_threshold E) query idx)"
      by (cases "map_of (file_index E1) system") auto
    then obtain tag records m where "(tag, records) \<in> set idx" "m \<in> set records"
      "r = \<lparr>filename = filename m, full_path = full_path m, source_type = source_type m,
               score = fuzzy_match_score L query (filename m), size_bytes = size_bytes m,
               modified_time = modified_time m\<rparr>"
      by (auto simp: collect_results_iff match_files_iff)
    with i show ?thesis
      by (intro exI[of _ idx] exI[of _ tag] exI[of _ records] exI[of _ m]) simp
  qed
  have b: "map_of (file_index E1) s = Some idx" if "map_of (file_index E) s = Some idx"
    for s idx
    using ensure_index_preserves[OF conjunct1[OF unfolded] that] .
  have c: "E1 = E \<and> fs1 = fs" if "map_of (file_index E) system \<noteq> None"
    using conjunct1[OF unfolded] ensure_index_present[OF that, of L fs] by simp
  from a b c show ?thesis by blast
qed

text \<open>The theorem of C9 at the first record returned for \<^verbatim>\<open>zelda\<close>.\<close>

theorem result_record_framing_witness:
  "search sample_lib sample_engine sample_fs (u ''zelda'') (u ''SNES'') 50
     = Inr ([zelda_b, zelda_a, zelda_official], sample_engine, sample_fs)
   \<and> (\<exists>idx tag records m.
        map_of (file_index sample_engine) (u ''SNES'') = Some idx \<and> (tag, records) \<in> set idx
        \<and> m \<in> set records
        \<and> filename zelda_b = filename m \<and> full_path zelda_b = full_path m
        \<and> source_type zelda_b = source_type m \<and> size_bytes zelda_b = size_bytes m
        \<and> modified_time zelda_b = modified_time m
        \<and> score zelda_b = fuzzy_match_score sample_lib (u ''zelda'') (filename m))"
proof -
  have s: "search sample_lib sample_engine sample_fs (u ''zelda'') (u ''SNES'') 50
     = Inr ([zelda_b, zelda_a, zelda_official], sample_engine, sample_fs)"
    by (simp add: search_zelda slice_to_def)
  have "zelda_b \<in> set [zelda_b, zelda_a, zelda_official]" by simp
  with result_record_framing[OF s] s show ?thesis by blast
qed

subsection \<open>C10: queries of one-character words\<close>

text \<open>
  C10 as the code has it: when the stripped query has at least 3 characters
  and every whitespace-separated word of the lowercased query and of the
  normalized query has length 1, both word lists of the pre-filter are empty
  while the required count is at least 1, so the pre-filter rejects every
  filename; \<^verbatim>\<open>search\<close> then returns the empty list whenever it returns, and it
  does return (leaving engine and filesystem unchanged) when the collection is
  already indexed.
\<close>

theorem single_letter_words_rejected:
  assumes "3 \<le> length (strip L query)"
    and "\<forall>w\<in>set (str_split L (str_lower L query)). length w = 1"
    and "\<forall>w\<in>set (str_split L (normalize_text L query)). length w = 1"
  shows "(\<forall>fname. \<not> contains_all_words L query fname)
       \<and> (\<forall>E fs system n rs E1 fs1.
            search L E fs query system n = Inr (rs, E1, fs1) \<longrightarrow> rs = [])
       \<and> (\<forall>E fs system n.
            map_of (file_index E) system \<noteq> None \<longrightarrow>
            search L E fs query system n = Inr ([], E, fs))"
proof -
  have rej: "\<forall>fname. \<not> contains_all_words L query fname"
    using prefilter_no_words[OF assms] by blast
  have ne: "strip L query \<noteq> []"
    using assms(1) by auto
  have r1: "rs = []" if "search L E fs query system n = Inr (rs, E1, fs1)"
    for E fs system n rs E1 fs1
    using search_results_subset[OF that] collect_results_rejected[OF rej] by simp
  have r2: "search L E fs query system n = Inr ([], E, fs)"
    if "map_of (file_index E) system \<noteq> None" for E fs system n
    using that ne
    by (simp add: search_def ensure_index_def Let_def collect_results_rejected[OF rej]
        sort_results_def slice_to_def)
  from rej r1 r2 show ?thesis by blast
qed

text \<open>
  C10 as written (every word of the query itself has length 1) fails: each word
  of the query of three times U+0130, separated by spaces, has length 1;
  lowercasing turns each into the two code points U+0069 U+0307, a word of
  length 2 that occurs in the lowercased name of the file U+0130 followed by
  \<^verbatim>\<open>.zip\<close>; the pre-filter passes that file.
\<close>

theorem single_letter_words_counterexample:
  "3 \<le> length (strip sample_lib [304, 32, 304, 32, 304])
   \<and> list_all (\<lambda>w. length w = 1) (str_split sample_lib [304, 32, 304, 32, 304])
   \<and> contains_all_words sample_lib [304, 32, 304, 32, 304] (304 # u ''.zip'')"
  by (simp add: contains_all_words_def sample_defs)

text \<open>The theorem of C10 at the query \<^verbatim>\<open>a b c\<close>.\<close>

theorem single_letter_words_witness:
  "3 \<le> length (strip sample_lib (u ''a b c''))
   \<and> list_all (\<lambda>w. length w = 1) (str_split sample_lib (str_lower sample_lib (u ''a b c'')))
   \<and> list_all (\<lambda>w. length w = 1)
        (str_split sample_lib (normalize_text sample_lib (u ''a b c'')))
   \<and> \<not> contains_all_words sample_lib (u ''a b c'') (u ''a b c.zip'')
   \<and> search sample_lib sample_engine sample_fs (u ''a b c'') (u ''SNES'') 50
       = Inr ([], sample_engine, sample_fs)"
proof -
  have h1: "3 \<le> length (strip sample_lib (u ''a b c''))"
    by (simp add: sample_defs)
  have h2: "\<forall>w\<in>set (str_split sample_lib (str_lower sample_lib (u ''a b c''))). length w = 1"
    by (simp add: sample_defs)
  have h3: "\<forall>w\<in>set (str_split sample_lib (normalize_text sample_lib (u ''a b c''))).
              length w = 1"
    by (simp add: sample_defs)
  have ix: "map_of (file_index sample_engine) (u ''SNES'') \<noteq> None"
    by (simp add: sample_engine_fields)
  from single_letter_words_rejected[OF h1 h2 h3] ix
  have "\<not> contains_all_words sample_lib (u ''a b c'') (u ''a b c.zip'')"
    and "search sample_lib sample_engine sample_fs (u ''a b c'') (u ''SNES'') 50
       = Inr ([], sample_engine, sample_fs)"
    by blast+
  with h1 h2 h3 show ?thesis
    by (simp add: list_all_iff)
qed

end
